theory Spec2Isabelle
  imports Main
begin

section \<open>The path rewrite of the development-server configuration\<close>

text \<open>
  The repository is one file, \<^verbatim>\<open>frontend/vite.config.js\<close>. It exports a configuration
  object whose only executable part is the arrow function
  \<^verbatim>\<open>rewrite: (path) => path.replace(/^\/api/, "")\<close>.
  A JavaScript string is a sequence of code units; it is modelled as a \<open>string\<close>
  (a list of characters), and an index is a position in that list.
\<close>

subsection \<open>The pattern of the regular expression literal\<close>

text \<open>
  The literal \<^verbatim>\<open>/^\/api/\<close> is a sequence of five terms: the assertion \<^verbatim>\<open>^\<close> and the four
  pattern characters \<^verbatim>\<open>/\<close>, \<^verbatim>\<open>a\<close>, \<^verbatim>\<open>p\<close>, \<^verbatim>\<open>i\<close>. It has no flags: without \<^verbatim>\<open>m\<close> the assertion
  holds at index 0 only, without \<^verbatim>\<open>i\<close> a pattern character matches the equal code unit
  only. There is no group, alternative or quantifier, so a match attempt at an index
  either fails or has exactly one end index.
\<close>

datatype re_term = Line_Start | Literal char

fun match_term :: "re_term \<Rightarrow> string \<Rightarrow> nat \<Rightarrow> nat option" where
  "match_term Line_Start S i = (if i = 0 then Some i else None)"
| "match_term (Literal c) S i = (if i < length S \<and> S ! i = c then Some (Suc i) else None)"

fun matcher :: "re_term list \<Rightarrow> string \<Rightarrow> nat \<Rightarrow> nat option" where
  "matcher [] S i = Some i"
| "matcher (t # ts) S i =
     (case match_term t S i of None \<Rightarrow> None | Some j \<Rightarrow> matcher ts S j)"

subsection \<open>The regular expression object and RegExpBuiltinExec\<close>

text \<open>
  A RegExp object carries its pattern, its flags and the mutable property
  \<^verbatim>\<open>lastIndex\<close>. Of the flags, \<^verbatim>\<open>g\<close> and \<^verbatim>\<open>y\<close> are the two that make a match read and
  write \<^verbatim>\<open>lastIndex\<close>; they are kept in the model so that the state a match can depend
  on is visible. A successful match yields the index where it starts and the matched
  substring.
\<close>

record regexp =
  source :: "re_term list"
  global :: bool
  sticky :: bool
  lastIndex :: nat

record match_result =
  index :: nat
  matched :: string

text \<open>
  The loop of RegExpBuiltinExec, from index \<open>i\<close>: past the end of the string the match
  fails; a failed attempt at \<open>i\<close> ends the search when the object is sticky and moves
  on to \<open>i + 1\<close> otherwise. A global or sticky object has its \<^verbatim>\<open>lastIndex\<close> set to the
  end index on success and to 0 on failure; any other object is left as it is.
\<close>

function exec_loop :: "regexp \<Rightarrow> string \<Rightarrow> nat \<Rightarrow> match_result option \<times> regexp" where
  "exec_loop R S i =
     (if length S < i
      then (None, if global R \<or> sticky R then R\<lparr>lastIndex := 0\<rparr> else R)
      else (case matcher (source R) S i of
              None \<Rightarrow>
                if sticky R then (None, R\<lparr>lastIndex := 0\<rparr>) else exec_loop R S (Suc i)
            | Some e \<Rightarrow>
                (Some \<lparr>index = i, matched = take (e - i) (drop i S)\<rparr>,
                 if global R \<or> sticky R then R\<lparr>lastIndex := e\<rparr> else R)))"
  by pat_completeness auto
termination
  by (relation "measure (\<lambda>(R, S, i). Suc (length S) - i)") auto

definition RegExpBuiltinExec :: "regexp \<Rightarrow> string \<Rightarrow> match_result option \<times> regexp" where
  "RegExpBuiltinExec R S =
     exec_loop R S (if global R \<or> sticky R then lastIndex R else 0)"

subsection \<open>RegExp.prototype[Symbol.replace]\<close>

text \<open>
  The matcher never moves backwards and never leaves the string. This is what makes the
  loop over all matches of a global object end.
\<close>

lemma match_term_bounds:
  "match_term t S i = Some e \<Longrightarrow> i \<le> length S \<Longrightarrow> i \<le> e \<and> e \<le> length S"
  by (cases t) (auto split: if_splits)

lemma matcher_bounds:
  "matcher ts S i = Some e \<Longrightarrow> i \<le> length S \<Longrightarrow> i \<le> e \<and> e \<le> length S"
proof (induction ts arbitrary: i)
  case Nil
  then show ?case by simp
next
  case (Cons t ts)
  from Cons.prems obtain j where j: "match_term t S i = Some j" and e: "matcher ts S j = Some e"
    by (auto split: option.splits)
  from match_term_bounds [OF j Cons.prems(2)] have "i \<le> j" and "j \<le> length S" by simp_all
  with Cons.IH [OF e] show ?case by simp
qed

lemma exec_loop_Some:
  "exec_loop R S i = (Some m, R') \<Longrightarrow>
     i \<le> index m \<and> index m + length (matched m) \<le> length S \<and>
     (global R \<or> sticky R \<longrightarrow> lastIndex R' = index m + length (matched m))"
proof (induction R S i rule: exec_loop.induct)
  case (1 R S i)
  show ?case
  proof (cases "length S < i")
    case True
    with "1.prems" show ?thesis by (simp add: exec_loop.simps [of R S i])
  next
    case False
    note in_range = this
    show ?thesis
    proof (cases "matcher (source R) S i")
      case None
      with in_range "1.prems" have "\<not> sticky R" and "exec_loop R S (Suc i) = (Some m, R')"
        by (auto simp: exec_loop.simps [of R S i] split: if_splits)
      with "1.IH" [OF in_range None] show ?thesis by simp
    next
      case (Some e)
      with in_range matcher_bounds [of "source R" S i e] have "i \<le> e" and "e \<le> length S"
        by simp_all
      with Some in_range "1.prems" show ?thesis
        by (auto simp: exec_loop.simps [of R S i] split: if_splits)
    qed
  qed
qed

text \<open>
  The list of results: one call of RegExpBuiltinExec unless the object is global; for
  a global object the calls go on until one fails, and after an empty match
  \<^verbatim>\<open>lastIndex\<close> is advanced by one.
\<close>

function collect_results :: "regexp \<Rightarrow> string \<Rightarrow> match_result list \<times> regexp" where
  "collect_results R S =
     (case RegExpBuiltinExec R S of
        (None, R1) \<Rightarrow> ([], R1)
      | (Some m, R1) \<Rightarrow>
          if \<not> global R then ([m], R1)
          else (case collect_results
                       (if matched m = [] then R1\<lparr>lastIndex := Suc (lastIndex R1)\<rparr> else R1) S of
                  (ms, R2) \<Rightarrow> (m # ms, R2)))"
  by pat_completeness auto
termination
proof (relation "measure (\<lambda>(R, S). Suc (length S) - lastIndex R)")
  show "wf (measure (\<lambda>(R, S). Suc (length S) - lastIndex R))" by simp
next
  fix R S x R1 m
  assume ex: "(x, R1) = RegExpBuiltinExec R S" and x: "x = Some m" and g: "\<not> \<not> global R"
  then have "exec_loop R S (lastIndex R) = (Some m, R1)"
    by (simp add: RegExpBuiltinExec_def)
  from exec_loop_Some [OF this] g
  have "lastIndex R \<le> index m" and "index m + length (matched m) \<le> length S"
    and "lastIndex R1 = index m + length (matched m)" by simp_all
  then show "((if matched m = [] then R1\<lparr>lastIndex := Suc (lastIndex R1)\<rparr> else R1, S), R, S)
           \<in> measure (\<lambda>(R, S). Suc (length S) - lastIndex R)"
    by (cases "matched m") auto
qed

text \<open>
  GetSubstitution expands the replacement template. The pattern language above has
  no capture group, so the only references are \<^verbatim>\<open>$$\<close>, \<^verbatim>\<open>$&\<close>, the text before the
  match (dollar, backquote) and the text after it (dollar, apostrophe); any other
  character, a dollar sign before a digit included, is copied.
\<close>

fun GetSubstitution :: "string \<Rightarrow> string \<Rightarrow> nat \<Rightarrow> string \<Rightarrow> string" where
  "GetSubstitution m S position [] = []"
| "GetSubstitution m S position [c] = [c]"
| "GetSubstitution m S position (c # d # t) =
     (if c = CHR ''$'' \<and> d = CHR ''$'' then CHR ''$'' # GetSubstitution m S position t
      else if c = CHR ''$'' \<and> d = CHR 0x60 then take position S @ GetSubstitution m S position t
      else if c = CHR ''$'' \<and> d = CHR ''&'' then m @ GetSubstitution m S position t
      else if c = CHR ''$'' \<and> d = CHR 0x27
        then drop (min (position + length m) (length S)) S @ GetSubstitution m S position t
      else c # GetSubstitution m S position (d # t))"

text \<open>
  The result string: the text between the matches, each match replaced by its
  substitution, then the rest of the string.
\<close>

fun accumulate :: "string \<Rightarrow> string \<Rightarrow> match_result list \<Rightarrow> nat \<Rightarrow> string" where
  "accumulate S replaceValue [] nextSourcePosition =
     (if length S \<le> nextSourcePosition then [] else drop nextSourcePosition S)"
| "accumulate S replaceValue (r # results) nextSourcePosition =
     (let position = min (index r) (length S) in
      if nextSourcePosition \<le> position
      then take (position - nextSourcePosition) (drop nextSourcePosition S)
           @ GetSubstitution (matched r) S position replaceValue
           @ accumulate S replaceValue results (position + length (matched r))
      else accumulate S replaceValue results nextSourcePosition)"

text \<open>
  The whole of \<^verbatim>\<open>rx[Symbol.replace](S, replaceValue)\<close>, which is what
  \<^verbatim>\<open>S.replace(rx, replaceValue)\<close> calls for a regular expression and a string
  \<open>replaceValue\<close>. A global object has \<^verbatim>\<open>lastIndex\<close> reset first. The object is returned
  with the string, since the call may have assigned to its \<^verbatim>\<open>lastIndex\<close>.
\<close>

definition RegExp_replace :: "regexp \<Rightarrow> string \<Rightarrow> string \<Rightarrow> string \<times> regexp" where
  "RegExp_replace rx S replaceValue =
     (case collect_results (if global rx then rx\<lparr>lastIndex := 0\<rparr> else rx) S of
        (results, rx') \<Rightarrow> (accumulate S replaceValue results 0, rx'))"

subsection \<open>The rewrite function\<close>

text \<open>
  Evaluating the literal \<^verbatim>\<open>/^\/api/\<close> creates a new object with no flag set and
  \<^verbatim>\<open>lastIndex\<close> 0.
\<close>

definition api_regexp :: regexp where
  "api_regexp =
     \<lparr>source = [Line_Start, Literal CHR ''/'', Literal CHR ''a'', Literal CHR ''p'', Literal CHR ''i''],
      global = False, sticky = False, lastIndex = 0\<rparr>"

text \<open>\<^verbatim>\<open>(path) => path.replace(/^\/api/, "")\<close>\<close>

definition rewrite :: "string \<Rightarrow> string" where
  "rewrite path = fst (RegExp_replace api_regexp path [])"

text \<open>\<^verbatim>\<open>S.startsWith(searchString)\<close>: the raw prefix test on strings.\<close>

definition startsWith :: "string \<Rightarrow> string \<Rightarrow> bool" where
  "startsWith S searchString = (take (length searchString) S = searchString)"

subsection \<open>The exported configuration\<close>

text \<open>
  The object literal handed to \<^verbatim>\<open>defineConfig\<close>. The keys of \<^verbatim>\<open>proxy\<close> are kept in
  their order, each with its options; \<open>rewrite_fn\<close> is the property \<^verbatim>\<open>rewrite\<close>.
  \<^verbatim>\<open>react()\<close> comes from a package outside the repository and is kept as a name.
\<close>

datatype plugin = React

record proxy_options =
  target :: string
  changeOrigin :: bool
  rewrite_fn :: "string \<Rightarrow> string"

record server_options =
  port :: nat
  proxy :: "(string \<times> proxy_options) list"

record user_config =
  plugins :: "plugin list"
  server :: server_options

definition config :: user_config where
  "config =
     \<lparr>plugins = [React],
      server =
        \<lparr>port = 3000,
         proxy =
           [(''/api'',
             \<lparr>target = ''http://localhost:8000'', changeOrigin = True, rewrite_fn = rewrite\<rparr>)]\<rparr>\<rparr>"

subsection \<open>The proxy router of the development server\<close>

text \<open>
  The source holds the configuration only. The server that reads it is a package
  outside the repository, so the router is written here from section 4.1 of the
  specification, over the rules of the configuration above.
\<close>

text \<open>
  Modelled from the spec: the inbound HTTP request, which the development server
  builds and the source never sees. The specification gives it a path, a method,
  headers and a body, and a query string that forwarding preserves.
\<close>

record http_request =
  http_method :: string
  path :: string
  query :: string
  headers :: "string \<rightharpoonup> string"
  body :: string

text \<open>
  Modelled from the spec: the two outcomes of the router's dispatch, which is code of
  the development server. A matched request is forwarded, as an outbound request to
  an upstream origin; any other is handled by the local server.
\<close>

datatype routing = Forward string http_request | Serve_Locally http_request

text \<open>
  Modelled from the spec: the host portion of a target origin
  \<^verbatim>\<open>scheme://host:port\<close>, computed by the development server's proxy: what follows
  the first \<^verbatim>\<open>://\<close>, up to the next \<^verbatim>\<open>/\<close>.
\<close>

fun after_scheme :: "string \<Rightarrow> string option" where
  "after_scheme [] = None"
| "after_scheme (c # t) =
     (if take 3 (c # t) = ''://'' then Some (drop 3 (c # t)) else after_scheme t)"

definition host_of_origin :: "string \<Rightarrow> string" where
  "host_of_origin origin =
     takeWhile (\<lambda>c. c \<noteq> CHR ''/'')
       (case after_scheme origin of None \<Rightarrow> origin | Some rest \<Rightarrow> rest)"

text \<open>
  Modelled from the spec: the outbound request the development server constructs on a
  match (steps 1 to 3 of the contract). The path is the rule's rewrite of the original
  path; method, headers, query string and body are preserved; when \<^verbatim>\<open>changeOrigin\<close> is
  set, the \<^verbatim>\<open>Host\<close> header becomes the host portion of the target.
\<close>

definition outbound :: "proxy_options \<Rightarrow> http_request \<Rightarrow> http_request" where
  "outbound opts req =
     req\<lparr>path := rewrite_fn opts (path req),
         headers := (if changeOrigin opts
                     then (headers req)(''Host'' \<mapsto> host_of_origin (target opts))
                     else headers req)\<rparr>"

text \<open>
  Modelled from the spec: the match policy and dispatch of the development server's
  router. A rule matches when its key is a prefix of the unmodified path, by a
  case-sensitive string test anchored at the start; the first rule that matches
  forwards the request to its target, and a request that no rule matches is served
  locally.
\<close>

fun route :: "(string \<times> proxy_options) list \<Rightarrow> http_request \<Rightarrow> routing" where
  "route [] req = Serve_Locally req"
| "route ((match_prefix, opts) # rules) req =
     (if startsWith (path req) match_prefix
      then Forward (target opts) (outbound opts req)
      else route rules req)"

section \<open>Properties of the rewrite function\<close>

subsection \<open>What a match of the anchored pattern is\<close>

lemma matcher_Literals:
  "matcher (map Literal cs) S i =
     (if take (length cs) (drop i S) = cs then Some (i + length cs) else None)"
proof (induction cs arbitrary: i)
  case Nil
  show ?case by simp
next
  case (Cons c cs)
  show ?case
  proof (cases "i < length S")
    case True
    then have "drop i S = S ! i # drop (Suc i) S"
      by (simp add: Cons_nth_drop_Suc)
    with True Cons.IH [of "Suc i"] show ?thesis by auto
  next
    case False
    then show ?thesis by simp
  qed
qed

lemma anchored_matcher:
  "matcher (Line_Start # map Literal cs) S i =
     (if i = 0 \<and> startsWith S cs then Some (length cs) else None)"
  by (simp add: matcher_Literals startsWith_def)

lemma anchored_exec_later:
  assumes "source R = Line_Start # map Literal cs" and "\<not> global R" and "\<not> sticky R"
  shows "0 < i \<Longrightarrow> exec_loop R S i = (None, R)"
proof (induction "Suc (length S) - i" arbitrary: i)
  case 0
  then have "length S < i" by simp
  with assms show ?case
    by (simp add: exec_loop.simps [of R S i])
next
  case (Suc n)
  then have "n = Suc (length S) - Suc i" and in_range: "\<not> length S < i" by simp_all
  with Suc.hyps(1) [of "Suc i"] have "exec_loop R S (Suc i) = (None, R)"
    by simp
  moreover from Suc.prems have "matcher (source R) S i = None"
    unfolding assms(1) anchored_matcher by simp
  ultimately show ?case
    using in_range assms by (simp add: exec_loop.simps [of R S i])
qed

lemma anchored_exec:
  assumes "source R = Line_Start # map Literal cs" and "\<not> global R" and "\<not> sticky R"
  shows "RegExpBuiltinExec R S =
           (if startsWith S cs then Some \<lparr>index = 0, matched = cs\<rparr> else None, R)"
proof -
  have start: "RegExpBuiltinExec R S = exec_loop R S 0"
    using assms by (simp add: RegExpBuiltinExec_def)
  have m: "matcher (source R) S 0 = (if startsWith S cs then Some (length cs) else None)"
    unfolding assms(1) anchored_matcher by simp
  show ?thesis
  proof (cases "startsWith S cs")
    case True
    then have "take (length cs) S = cs"
      by (simp add: startsWith_def)
    with m True assms show ?thesis
      unfolding start by (simp add: exec_loop.simps [of R S 0])
  next
    case False
    with m assms anchored_exec_later [OF assms, of "Suc 0" S] show ?thesis
      unfolding start by (simp add: exec_loop.simps [of R S 0])
  qed
qed

lemma anchored_replace:
  assumes "source R = Line_Start # map Literal cs" and "\<not> global R" and "\<not> sticky R"
  shows "RegExp_replace R S replaceValue =
           (if startsWith S cs then GetSubstitution cs S 0 replaceValue @ drop (length cs) S
            else S, R)"
proof -
  have "collect_results R S =
          (if startsWith S cs then [\<lparr>index = 0, matched = cs\<rparr>] else [], R)"
    using assms by (simp add: collect_results.simps [of R S] anchored_exec [OF assms])
  with assms show ?thesis
    by (simp add: RegExp_replace_def)
qed

lemma api_regexp_anchored:
  "source (api_regexp\<lparr>lastIndex := k\<rparr>) = Line_Start # map Literal ''/api''"
  "\<not> global (api_regexp\<lparr>lastIndex := k\<rparr>)"
  "\<not> sticky (api_regexp\<lparr>lastIndex := k\<rparr>)"
  by (simp_all add: api_regexp_def)

lemma api_replace:
  "RegExp_replace (api_regexp\<lparr>lastIndex := k\<rparr>) S [] =
     (if startsWith S ''/api'' then drop 4 S else S, api_regexp\<lparr>lastIndex := k\<rparr>)"
proof -
  have "length ''/api'' = 4" by simp
  with anchored_replace [OF api_regexp_anchored, of k S "[]"] show ?thesis
    by (simp del: list.size)
qed

lemma rewrite_eq:
  "rewrite p = (if startsWith p ''/api'' then drop 4 p else p)"
proof -
  have "api_regexp\<lparr>lastIndex := 0\<rparr> = api_regexp"
    by (simp add: api_regexp_def)
  with api_replace [of 0 p] show ?thesis
    by (simp add: rewrite_def)
qed

lemma startsWith_append: "startsWith (p @ s) p"
  by (simp add: startsWith_def)

subsection \<open>The claims about the rewrite function\<close>

text \<open>
  Claim C1. For every string \<open>s\<close>, the rewrite of \<^verbatim>\<open>/api\<close> followed by \<open>s\<close> is \<open>s\<close>:
  the leading \<^verbatim>\<open>/api\<close> is removed exactly once. In particular \<^verbatim>\<open>/api/users\<close> becomes
  \<^verbatim>\<open>/users\<close> and \<^verbatim>\<open>/api/items/42\<close> becomes \<^verbatim>\<open>/items/42\<close>, and a second \<^verbatim>\<open>/api\<close> later in
  the path stays: \<^verbatim>\<open>/api/api/x\<close> becomes \<^verbatim>\<open>/api/x\<close>.
\<close>

theorem rewrite_strips_leading_api:
  "rewrite (''/api'' @ s) = s \<and>
   rewrite ''/api/users'' = ''/users'' \<and>
   rewrite ''/api/items/42'' = ''/items/42'' \<and>
   rewrite ''/api/api/x'' = ''/api/x''"
proof -
  have general: "rewrite (''/api'' @ t) = t" for t
    using startsWith_append [of "''/api''" t] by (simp add: rewrite_eq)
  from general [of s] general [of "''/users''"] general [of "''/items/42''"]
    general [of "''/api/x''"]
  show ?thesis by simp
qed

text \<open>
  Claim C2. The rewrite is total over all strings: it is a function defined by
  terminating recursion, and on every string its value is the one given here. On a
  string that does not start with \<^verbatim>\<open>/api\<close> (as a raw string prefix) it is the identity.
\<close>

theorem rewrite_total_identity_off_prefix:
  "rewrite p = (if startsWith p ''/api'' then drop 4 p else p) \<and>
   (\<not> startsWith p ''/api'' \<longrightarrow> rewrite p = p)"
  by (simp add: rewrite_eq)

theorem rewrite_total_identity_off_prefix_witness:
  "\<not> startsWith ''/static/logo.png'' ''/api'' \<and>
   rewrite ''/static/logo.png'' = ''/static/logo.png''"
proof -
  have off: "\<not> startsWith ''/static/logo.png'' ''/api''"
    by (simp add: startsWith_def)
  with rewrite_total_identity_off_prefix [of "''/static/logo.png''"] show ?thesis
    by blast
qed

text \<open>
  The state of the object does matter to a replacement in general. With the flag
  \<^verbatim>\<open>y\<close> the same pattern reads \<^verbatim>\<open>lastIndex\<close> and assigns to it, and with \<^verbatim>\<open>g\<close> it resets
  it; the literal of the source has neither flag.
\<close>

lemma sticky_replace_reads_lastIndex:
  "fst (RegExp_replace (api_regexp\<lparr>sticky := True, lastIndex := 0\<rparr>) ''/api/x'' []) = ''/x'' \<and>
   fst (RegExp_replace (api_regexp\<lparr>sticky := True, lastIndex := 1\<rparr>) ''/api/x'' []) = ''/api/x''"
  by code_simp

lemma sticky_replace_writes_lastIndex:
  "snd (RegExp_replace (api_regexp\<lparr>sticky := True, lastIndex := 0\<rparr>) ''/api/x'' []) =
     api_regexp\<lparr>sticky := True, lastIndex := 4\<rparr>"
  by code_simp

lemma global_replace_resets_lastIndex:
  "RegExp_replace (api_regexp\<lparr>global := True, lastIndex := 7\<rparr>) ''/api/x'' [] =
     (''/x'', api_regexp\<lparr>global := True, lastIndex := 0\<rparr>)"
  by code_simp

text \<open>
  Claim C7. The rewrite is deterministic and pure. The only mutable state its body
  touches is the \<^verbatim>\<open>lastIndex\<close> of the regular expression object. Whatever that value is,
  the replacement returns the same string, namely the rewrite of the path, and leaves
  the object as it found it; so two evaluations on the same path agree, whatever the
  state each starts from.
\<close>

theorem rewrite_independent_of_state:
  "RegExp_replace (api_regexp\<lparr>lastIndex := k\<rparr>) p [] =
     (rewrite p, api_regexp\<lparr>lastIndex := k\<rparr>) \<and>
   fst (RegExp_replace (api_regexp\<lparr>lastIndex := k\<rparr>) p []) =
     fst (RegExp_replace (api_regexp\<lparr>lastIndex := k'\<rparr>) p [])"
  by (simp add: api_replace rewrite_eq)

text \<open>
  Claim C9. The prefix is a raw string prefix, not a prefix of path segments: the
  rewrite strips \<^verbatim>\<open>/api\<close> whatever character follows it. So \<^verbatim>\<open>/apiary\<close> becomes \<^verbatim>\<open>ary\<close>
  and \<^verbatim>\<open>/apiville\<close> becomes \<^verbatim>\<open>ville\<close>.
\<close>

theorem rewrite_raw_string_prefix:
  "rewrite ''/apiary'' = ''ary'' \<and>
   rewrite ''/apiville'' = ''ville'' \<and>
   rewrite (''/api'' @ c # s) = c # s"
proof -
  have general: "rewrite (''/api'' @ t) = t" for t
    using startsWith_append [of "''/api''" t] by (simp add: rewrite_eq)
  from general [of "''ary''"] general [of "''ville''"] general [of "c # s"]
  show ?thesis by simp
qed

section \<open>Properties of the router\<close>

lemma host_of_target: "host_of_origin ''http://localhost:8000'' = ''localhost:8000''"
  by (simp add: host_of_origin_def)

lemma route_config:
  "route (proxy (server config)) req =
     (if startsWith (path req) ''/api''
      then Forward ''http://localhost:8000''
             (req\<lparr>path := rewrite (path req),
                  headers := (headers req)(''Host'' \<mapsto> ''localhost:8000'')\<rparr>)
      else Serve_Locally req)"
  by (simp add: config_def outbound_def host_of_target del: fun_upd_apply)

text \<open>
  Claim C3. A request whose path does not start with \<^verbatim>\<open>/api\<close> is not rewritten and
  not sent to the upstream origin: the router's outcome is the unmodified request,
  to be served locally. That outcome is not an error.
\<close>

theorem unmatched_served_locally:
  "\<not> startsWith (path req) ''/api'' \<Longrightarrow>
   route (proxy (server config)) req = Serve_Locally req"
  by (simp add: route_config)

theorem unmatched_served_locally_witness:
  "\<not> startsWith ''/static/logo.png'' ''/api'' \<and>
   route (proxy (server config))
     \<lparr>http_method = ''GET'', path = ''/static/logo.png'', query = [],
      headers = [''Host'' \<mapsto> ''localhost:3000''], body = []\<rparr>
   = Serve_Locally
     \<lparr>http_method = ''GET'', path = ''/static/logo.png'', query = [],
      headers = [''Host'' \<mapsto> ''localhost:3000''], body = []\<rparr>"
proof -
  have off: "\<not> startsWith ''/static/logo.png'' ''/api''"
    by (simp add: startsWith_def)
  with unmatched_served_locally
    [of "\<lparr>http_method = ''GET'', path = ''/static/logo.png'', query = [],
         headers = [''Host'' \<mapsto> ''localhost:3000''], body = []\<rparr>"]
  show ?thesis by simp
qed

text \<open>
  Claim C4. With target origin \<^verbatim>\<open>http://localhost:8000\<close> and \<^verbatim>\<open>changeOrigin\<close> true, the
  outbound request of every matched request has the \<^verbatim>\<open>Host\<close> header \<^verbatim>\<open>localhost:8000\<close>,
  whatever the inbound \<^verbatim>\<open>Host\<close> header \<open>h\<close> is, absent or present.
\<close>

theorem outbound_host_is_target_host:
  "startsWith (path req) ''/api'' \<Longrightarrow>
   \<exists>out. route (proxy (server config)) (req\<lparr>headers := (headers req)(''Host'' := h)\<rparr>)
           = Forward ''http://localhost:8000'' out
         \<and> headers out ''Host'' = Some ''localhost:8000''"
  by (simp add: route_config)

theorem outbound_host_is_target_host_witness:
  "startsWith ''/api/items/42'' ''/api'' \<and>
   (\<exists>out. route (proxy (server config))
             \<lparr>http_method = ''GET'', path = ''/api/items/42'', query = [],
              headers = [''Host'' \<mapsto> ''evil.example''], body = []\<rparr>
           = Forward ''http://localhost:8000'' out
         \<and> headers out ''Host'' = Some ''localhost:8000'')"
proof -
  have on: "startsWith ''/api/items/42'' ''/api''"
    by (simp add: startsWith_def)
  with outbound_host_is_target_host
    [of "\<lparr>http_method = ''GET'', path = ''/api/items/42'', query = [],
          headers = Map.empty, body = []\<rparr>" "Some ''evil.example''"]
  show ?thesis by simp
qed

text \<open>
  Claim C5. The outbound request of a matched request has the method, the query
  string, the body and every header other than \<^verbatim>\<open>Host\<close> of the inbound request. Its
  path is the rewrite of the inbound path, and nothing but the path and the headers
  differs from the inbound request.
\<close>

theorem outbound_preserves_request:
  "startsWith (path req) ''/api'' \<Longrightarrow>
   \<exists>out. route (proxy (server config)) req = Forward ''http://localhost:8000'' out
         \<and> http_method out = http_method req
         \<and> query out = query req
         \<and> body out = body req
         \<and> headers out |` (- {''Host''}) = headers req |` (- {''Host''})
         \<and> path out = rewrite (path req)
         \<and> out = req\<lparr>path := path out, headers := headers out\<rparr>"
  by (simp add: route_config)

theorem outbound_preserves_request_witness:
  "startsWith ''/api/items/42'' ''/api'' \<and>
   (\<exists>out. route (proxy (server config))
             \<lparr>http_method = ''GET'', path = ''/api/items/42'', query = ''page=2'',
              headers = [''Host'' \<mapsto> ''localhost:3000'', ''Accept'' \<mapsto> ''application/json''],
              body = []\<rparr>
           = Forward ''http://localhost:8000'' out
         \<and> http_method out = ''GET''
         \<and> query out = ''page=2''
         \<and> body out = []
         \<and> headers out ''Accept'' = Some ''application/json''
         \<and> path out = ''/items/42'')"
proof -
  let ?req = "\<lparr>http_method = ''GET'', path = ''/api/items/42'', query = ''page=2'',
              headers = [''Host'' \<mapsto> ''localhost:3000'', ''Accept'' \<mapsto> ''application/json''],
              body = []\<rparr>"
  have on: "startsWith ''/api/items/42'' ''/api''"
    by (simp add: startsWith_def)
  have p: "rewrite ''/api/items/42'' = ''/items/42''"
    using startsWith_append [of "''/api''" "''/items/42''"] by (simp add: rewrite_eq)
  from outbound_preserves_request [of ?req] on
  obtain out where out: "route (proxy (server config)) ?req = Forward ''http://localhost:8000'' out"
    and m: "http_method out = ''GET''" and q: "query out = ''page=2''" and b: "body out = []"
    and h: "headers out |` (- {''Host''}) = headers ?req |` (- {''Host''})"
    and pa: "path out = rewrite ''/api/items/42''"
    by auto
  from h have "(headers out |` (- {''Host''})) ''Accept'' = (headers ?req |` (- {''Host''})) ''Accept''"
    by simp
  then have "headers out ''Accept'' = Some ''application/json''"
    by (simp add: restrict_map_def)
  with out m q b pa p on show ?thesis by simp
qed

section \<open>The path that is exactly the prefix\<close>

text \<open>
  Claim C10. On the path that is exactly the prefix the rewrite returns the empty
  string, not \<^verbatim>\<open>/\<close>. The one rule of the configuration matches that path and its
  rewrite function yields the empty path; so the router forwards every request to
  exactly \<^verbatim>\<open>/api\<close> to the upstream origin, and the path of the outbound request is
  empty.
\<close>

theorem rewrite_of_bare_prefix:
  "rewrite ''/api'' = [] \<and>
   rewrite ''/api'' \<noteq> ''/'' \<and>
   map (\<lambda>(match_prefix, opts). (startsWith ''/api'' match_prefix, rewrite_fn opts ''/api''))
     (proxy (server config)) = [(True, [])] \<and>
   route (proxy (server config)) (req\<lparr>path := ''/api''\<rparr>) =
     Forward ''http://localhost:8000''
       (req\<lparr>path := [], headers := (headers req)(''Host'' \<mapsto> ''localhost:8000'')\<rparr>) \<and>
   (\<exists>out. route (proxy (server config)) (req\<lparr>path := ''/api''\<rparr>) =
            Forward ''http://localhost:8000'' out \<and> path out = [])"
proof -
  have "rewrite (''/api'' @ []) = []"
    using startsWith_append [of "''/api''" "[]"] by (simp add: rewrite_eq)
  then have empty: "rewrite ''/api'' = []" by simp
  have matched: "startsWith ''/api'' ''/api''"
    by (simp add: startsWith_def)
  from empty matched
  have rule: "map (\<lambda>(match_prefix, opts). (startsWith ''/api'' match_prefix, rewrite_fn opts ''/api''))
                (proxy (server config)) = [(True, [])]"
    by (simp add: config_def)
  from empty matched
  have forwarded: "route (proxy (server config)) (req\<lparr>path := ''/api''\<rparr>) =
      Forward ''http://localhost:8000''
        (req\<lparr>path := [], headers := (headers req)(''Host'' \<mapsto> ''localhost:8000'')\<rparr>)"
    by (simp add: route_config)
  from empty rule forwarded show ?thesis by simp
qed

end
